theory Spec2Isabelle
  imports Main "HOL-Library.Word"
begin

section \<open>Strings\<close>

text \<open>
  A JavaScript string is a sequence of 16-bit code units; \<open>length\<close> counts code units, as
  \<open>String.prototype.length\<close> does. \<open>js\<close> turns an ASCII literal into such a string.
\<close>

type_synonym jschar = "16 word"
type_synonym jsstring = "jschar list"

definition js :: "string \<Rightarrow> jsstring" where
  "js s = map of_char s"

definition startsWith :: "jsstring \<Rightarrow> jsstring \<Rightarrow> bool" where
  "startsWith s p \<longleftrightarrow> take (length p) s = p"

text \<open>
  \<open>\w\<close> is \<open>[A-Za-z0-9_]\<close>. \<open>\s\<close> and \<open>trim()\<close> use the same set: the WhiteSpace and
  LineTerminator code points of the language.
\<close>

definition isWordChar :: "jschar \<Rightarrow> bool" where
  "isWordChar c \<longleftrightarrow> (0x41 \<le> c \<and> c \<le> 0x5A) \<or> (0x61 \<le> c \<and> c \<le> 0x7A)
      \<or> (0x30 \<le> c \<and> c \<le> 0x39) \<or> c = 0x5F"

definition isWhiteSpace :: "jschar \<Rightarrow> bool" where
  "isWhiteSpace c \<longleftrightarrow>
     c \<in> {0x09, 0x0A, 0x0B, 0x0C, 0x0D, 0x20, 0xA0, 0x1680, 0x2028, 0x2029,
          0x202F, 0x205F, 0x3000, 0xFEFF}
     \<or> (0x2000 \<le> c \<and> c \<le> 0x200A)"

definition isLetter :: "jschar \<Rightarrow> bool" where
  "isLetter c \<longleftrightarrow> (0x41 \<le> c \<and> c \<le> 0x5A) \<or> (0x61 \<le> c \<and> c \<le> 0x7A)"

definition isDigit :: "jschar \<Rightarrow> bool" where
  "isDigit c \<longleftrightarrow> 0x30 \<le> c \<and> c \<le> 0x39"

definition trim :: "jsstring \<Rightarrow> jsstring" where
  "trim s = rev (dropWhile isWhiteSpace (rev (dropWhile isWhiteSpace s)))"

text \<open>
  \<open>String.prototype.toLowerCase\<close> follows the case tables of Unicode, which are no part of
  the component: the operations below take it as a parameter \<open>lower\<close>. \<open>asciiLowerCase\<close> is
  what it does on a string of ASCII code units; it stands for it on the concrete ASCII
  inputs.
\<close>

definition asciiLowerCase :: "jsstring \<Rightarrow> jsstring" where
  "asciiLowerCase s = map (\<lambda>c. if 0x41 \<le> c \<and> c \<le> 0x5A then c + 0x20 else c) s"

section \<open>The regular expressions of the component\<close>

text \<open>
  The patterns of the source are sequences of single-character pieces, some of them
  repeated greedily. \<open>matchHere\<close> is the backtracking matcher at one position: it gives the
  length of the match, trying the longest repetition first and shorter ones after a
  failure of the rest of the pattern.
\<close>

datatype piece =
    One "jschar \<Rightarrow> bool"
  | AtLeast nat "jschar \<Rightarrow> bool"
  | EndOfInput

primrec firstDown :: "(nat \<Rightarrow> nat option) \<Rightarrow> nat \<Rightarrow> nat \<Rightarrow> nat option" where
  "firstDown f m 0 = (if 0 < m then None else f 0)"
| "firstDown f m (Suc k) =
     (if Suc k < m then None
      else case f (Suc k) of Some r \<Rightarrow> Some r | None \<Rightarrow> firstDown f m k)"

fun matchHere :: "piece list \<Rightarrow> jsstring \<Rightarrow> nat option" where
  "matchHere [] s = Some 0"
| "matchHere (One p # ps) s =
     (case s of
        [] \<Rightarrow> None
      | c # cs \<Rightarrow> if p c then map_option Suc (matchHere ps cs) else None)"
| "matchHere (AtLeast m p # ps) s =
     firstDown (\<lambda>k. map_option ((+) k) (matchHere ps (drop k s))) m
       (length (takeWhile p s))"
| "matchHere (EndOfInput # ps) s = (if s = [] then matchHere ps s else None)"

text \<open>
  \<open>text.replace(re, '')\<close> with the \<open>g\<close> flag: scan from the left; where the pattern
  matches, drop the match and go on behind it; elsewhere keep the code unit. An empty match
  removes nothing and the scan moves on by one.
\<close>

fun replaceAll :: "piece list \<Rightarrow> jsstring \<Rightarrow> jsstring" where
  "replaceAll re [] = []"
| "replaceAll re (c # cs) =
     (case matchHere re (c # cs) of
        Some (Suc n) \<Rightarrow> replaceAll re (drop n cs)
      | _ \<Rightarrow> c # replaceAll re cs)"

text \<open>
  \<open>re.test\<close> for a pattern that begins with \<open>^\<close>: only position 0 is tried.
\<close>

definition matchesFromStart :: "piece list \<Rightarrow> jsstring \<Rightarrow> bool" where
  "matchesFromStart re s \<longleftrightarrow> matchHere re s \<noteq> None"

text \<open>
  The \<open>i\<close> flag without the \<open>u\<close> flag compares canonicalised code units. All pattern
  characters here are ASCII, and no code unit outside ASCII canonicalises to an ASCII one,
  so upper-casing the ASCII letters is the whole comparison.
\<close>

definition canonicalize :: "jschar \<Rightarrow> jschar" where
  "canonicalize c = (if 0x61 \<le> c \<and> c \<le> 0x7A then c - 0x20 else c)"

definition lit :: "char \<Rightarrow> piece" where
  "lit x = One (\<lambda>c. c = of_char x)"

definition litCI :: "char \<Rightarrow> piece" where
  "litCI x = One (\<lambda>c. canonicalize c = canonicalize (of_char x))"

definition isAngle :: "jschar \<Rightarrow> bool" where
  "isAngle c \<longleftrightarrow> c = of_char CHR ''<'' \<or> c = of_char CHR ''>''"

text \<open>\<^verbatim>\<open>/[<>]/g\<close>\<close>

definition angleRe :: "piece list" where
  "angleRe = [One isAngle]"

text \<open>\<^verbatim>\<open>/javascript:/gi\<close>\<close>

definition javascriptRe :: "piece list" where
  "javascriptRe = map litCI ''javascript:''"

text \<open>\<^verbatim>\<open>/on\w+\s*=/gi\<close>\<close>

definition handlerRe :: "piece list" where
  "handlerRe =
     [litCI CHR ''o'', litCI CHR ''n'', AtLeast 1 isWordChar, AtLeast 0 isWhiteSpace,
      lit CHR ''='']"

text \<open>\<^verbatim>\<open>/^[A-Z0-9._%+-]+@[A-Z0-9.-]+\.[A-Z]{2,}$/i\<close>\<close>

definition isLocalChar :: "jschar \<Rightarrow> bool" where
  "isLocalChar c \<longleftrightarrow> isLetter c \<or> isDigit c \<or> c \<in> set (js ''._%+-'')"

definition isDomainChar :: "jschar \<Rightarrow> bool" where
  "isDomainChar c \<longleftrightarrow> isLetter c \<or> isDigit c \<or> c \<in> set (js ''.-'')"

definition emailRe :: "piece list" where
  "emailRe =
     [AtLeast 1 isLocalChar, lit CHR ''@'', AtLeast 1 isDomainChar, lit CHR ''.'',
      AtLeast 2 isLetter, EndOfInput]"

text \<open>Whether a pattern matches somewhere in a string with a non-empty match.\<close>

fun occursIn :: "piece list \<Rightarrow> jsstring \<Rightarrow> bool" where
  "occursIn re [] = False"
| "occursIn re (c # cs) =
     (case matchHere re (c # cs) of
        Some (Suc n) \<Rightarrow> True
      | _ \<Rightarrow> occursIn re cs)"

section \<open>sanitizeText\<close>

definition sanitizeText :: "jsstring \<Rightarrow> jsstring" where
  "sanitizeText text =
     trim (replaceAll handlerRe (replaceAll javascriptRe (replaceAll angleRe text)))"

section \<open>Data model\<close>

text \<open>The fields of a browser \<open>File\<close> that the component reads.\<close>

record js_file =
  file_name :: jsstring
  file_type :: jsstring
  file_size :: nat

text \<open>The interface \<open>UploadedImage\<close>.\<close>

record image_variants =
  variant_public :: jsstring
  variant_thumbnail :: "jsstring option"

record uploaded_image =
  image_id :: jsstring
  image_url :: jsstring
  image_filename :: jsstring
  variants :: image_variants

text \<open>
  What \<open>uploadImageToCloudflare\<close> resolves to. The declared type is
  \<open>UploadedImage | null\<close>, but the value is \<open>result.image\<close> of an untyped JSON body, which
  is \<open>undefined\<close> when the body has no such key.
\<close>

datatype upload_result = Null | Undefined | Uploaded uploaded_image

text \<open>The JSON body of the upload endpoint, as far as the code reads it.\<close>

record upload_body =
  success :: bool
  image :: upload_result
  error :: "jsstring option"

text \<open>
  What \<open>fetch\<close> does: the promise rejects (no response), or it resolves to a response with
  its \<open>ok\<close> flag and the value of \<open>response.json()\<close>, which rejects (\<open>None\<close>) when the body
  is not JSON.
\<close>

datatype 'b fetch_outcome = Rejects | Response bool "'b option"

text \<open>The values that the \<open>catch\<close> blocks receive.\<close>

datatype js_error = FetchError | Error jsstring | SyntaxError | ReaderError

text \<open>
  The interface \<open>FormData\<close>: the values held by the form library. \<open>images\<close> is optional:
  it is absent until \<open>setValue('images', ...)\<close> runs.
\<close>

record 'a form_values =
  name :: jsstring
  email :: jsstring
  story :: jsstring
  images :: "'a list option"

datatype field = Name | Email | Story

text \<open>The JSON body of the POST to the submission endpoint.\<close>

record 'i payload =
  payload_name :: jsstring
  payload_email :: jsstring
  payload_story :: jsstring
  payload_images :: "'i list"
  submittedAt :: jsstring

text \<open>The element of \<open>imageData\<close> in the variant that sends the files inline.\<close>

record image_blob =
  blob_name :: jsstring
  blob_type :: jsstring
  blob_size :: nat
  blob_data :: jsstring

text \<open>
  The state of the component: the \<open>useState\<close> cells, the values and errors of
  \<open>useForm\<close>, and the two things it does to the outside: lines written with
  \<open>console.error\<close> and bodies POSTed to the submission endpoint. \<open>'a\<close> is the type of an
  attachment, \<open>'p\<close> of a request body.
\<close>

record ('a, 'p) component =
  isSubmitting :: bool
  submitMessage :: jsstring
  uploadedImages :: "'a list"
  uploadingImages :: bool
  formValues :: "'a form_values"
  errors :: "(field \<times> jsstring) list"
  console :: "(jsstring \<times> js_error) list"
  posted :: "'p list"

text \<open>
  The variant that uploads each image keeps \<open>uploadedImages\<close>; the variant that sends the
  files inline calls the same cell \<open>uploadedFiles\<close> and has no \<open>uploadingImages\<close>.
\<close>

abbreviation uploadedFiles :: "('a, 'p) component \<Rightarrow> 'a list" where
  "uploadedFiles \<equiv> uploadedImages"

type_synonym cloudflare_app = "(upload_result, upload_result payload) component"
type_synonym netlify_app = "(js_file, image_blob payload) component"

definition resetValues :: "'a form_values" where
  "resetValues = \<lparr>name = [], email = [], story = [], images = None\<rparr>"

text \<open>
  \<open>reset()\<close> without arguments, with no \<open>defaultValues\<close> given to \<open>useForm\<close>. The library
  drops its values and resets the inputs through the \<open>form\<close> element around them. In the
  uploading variant the inputs are inside \<open>form\<close>, so they become empty. The inline variant
  has no \<open>form\<close> element (the fields are in a \<open>div\<close>, the button is of type \<open>button\<close>): its
  inputs keep their text, and the library reads name, e-mail and story back from them. The
  value \<open>images\<close> belongs to no input and is dropped in both.
\<close>

definition resetWithForm :: "'a form_values \<Rightarrow> 'a form_values" where
  "resetWithForm v = resetValues"

definition resetWithoutForm :: "'a form_values \<Rightarrow> 'a form_values" where
  "resetWithoutForm v = v\<lparr>images := None\<rparr>"

definition initial :: "('a, 'p) component" where
  "initial = \<lparr>isSubmitting = False, submitMessage = [], uploadedImages = [],
     uploadingImages = False, formValues = resetValues, errors = [], console = [],
     posted = []\<rparr>"

text \<open>The list registered under \<open>images\<close>; an absent value holds no attachment.\<close>

definition formImages :: "('a, 'p) component \<Rightarrow> 'a list" where
  "formImages st = (case images (formValues st) of None \<Rightarrow> [] | Some xs \<Rightarrow> xs)"

definition inSync :: "('a, 'p) component \<Rightarrow> bool" where
  "inSync st \<longleftrightarrow> formImages st = uploadedImages st"

section \<open>Input collector: the rules given to \<open>register\<close>\<close>

text \<open>
  The form library checks \<open>required\<close> first (the value is empty), then \<open>maxLength\<close> and
  \<open>minLength\<close> together, then \<open>pattern\<close>; the first failing rule gives the message of the
  field.
\<close>

definition checkLength :: "nat \<times> jsstring \<Rightarrow> nat \<times> jsstring \<Rightarrow> jsstring \<Rightarrow> jsstring option" where
  "checkLength minRule maxRule v =
     (if fst maxRule < length v then Some (snd maxRule)
      else if length v < fst minRule then Some (snd minRule)
      else None)"

definition validateName :: "jsstring \<Rightarrow> jsstring option" where
  "validateName v =
     (if v = [] then Some (js ''Name is required'')
      else checkLength (2, js ''Name must be at least 2 characters'')
             (100, js ''Name must be less than 100 characters'') v)"

definition validateEmail :: "jsstring \<Rightarrow> jsstring option" where
  "validateEmail v =
     (if v = [] then Some (js ''Email is required'')
      else if matchesFromStart emailRe v then None
      else Some (js ''Please enter a valid email address''))"

definition validateStory :: "jsstring \<Rightarrow> jsstring option" where
  "validateStory v =
     (if v = [] then Some (js ''Story is required'')
      else checkLength (10, js ''Story must be at least 10 characters'')
             (5000, js ''Story must be less than 5000 characters'') v)"

definition fieldError :: "field \<Rightarrow> jsstring option \<Rightarrow> (field \<times> jsstring) list" where
  "fieldError f r = (case r of None \<Rightarrow> [] | Some m \<Rightarrow> [(f, m)])"

definition validate :: "'a form_values \<Rightarrow> (field \<times> jsstring) list" where
  "validate d =
     fieldError Name (validateName (name d)) @ fieldError Email (validateEmail (email d))
       @ fieldError Story (validateStory (story d))"

section \<open>Attachment manager\<close>

definition isImageFile :: "js_file \<Rightarrow> bool" where
  "isImageFile f \<longleftrightarrow> startsWith (file_type f) (js ''image/'')"

subsection \<open>The variant that keeps the files\<close>

definition handleFiles_netlify :: "js_file list \<Rightarrow> netlify_app \<Rightarrow> netlify_app" where
  "handleFiles_netlify files st =
     (let imageFiles = filter isImageFile files in
      if 0 < length imageFiles
      then st\<lparr>uploadedImages := uploadedFiles st @ imageFiles,
              formValues := (formValues st)\<lparr>images := Some (uploadedFiles st @ imageFiles)\<rparr>\<rparr>
      else st)"

text \<open>
  \<open>index\<close> is the number passed by the caller, an integer here. The callback of \<open>filter\<close>
  compares every position \<open>i\<close> of the list with it and keeps the entry when they differ;
  there is no indexed access.
\<close>

definition removeFile :: "int \<Rightarrow> netlify_app \<Rightarrow> netlify_app" where
  "removeFile index st =
     (let newFiles = map snd (filter (\<lambda>(i, _). int i \<noteq> index) (enumerate 0 (uploadedFiles st)))
      in st\<lparr>uploadedImages := newFiles,
             formValues := (formValues st)\<lparr>images := Some newFiles\<rparr>\<rparr>)"

subsection \<open>The variant that uploads each image\<close>

text \<open>
  The \<open>try\<close> block of \<open>uploadImageToCloudflare\<close>, then the function with its \<open>catch\<close>:
  it gives its result and the line it logs, if any. It never rejects.
\<close>

definition uploadAttempt :: "upload_body fetch_outcome \<Rightarrow> js_error + upload_result" where
  "uploadAttempt outcome =
     (case outcome of
        Rejects \<Rightarrow> Inl FetchError
      | Response ok body \<Rightarrow>
          if \<not> ok then Inl (Error (js ''Upload failed''))
          else (case body of
                  None \<Rightarrow> Inl SyntaxError
                | Some result \<Rightarrow>
                    if success result then Inr (image result)
                    else Inl (Error (case error result of
                                       None \<Rightarrow> js ''Upload failed''
                                     | Some m \<Rightarrow> if m = [] then js ''Upload failed'' else m))))"

definition uploadImageToCloudflare ::
    "upload_body fetch_outcome \<Rightarrow> upload_result \<times> (jsstring \<times> js_error) list" where
  "uploadImageToCloudflare outcome =
     (case uploadAttempt outcome of
        Inl e \<Rightarrow> (Null, [(js ''Error uploading image:'', e)])
      | Inr r \<Rightarrow> (r, []))"

text \<open>
  \<open>handleFiles\<close> is asynchronous: it runs up to \<open>await Promise.all(...)\<close>, and the rest runs
  when all uploads have settled; other handlers of the component can run in between. A
  suspended call keeps the \<open>uploadedImages\<close> of the render that created the handler (the
  variable of the closure) and its \<open>imageFiles\<close>.

  \<open>net i f\<close> is what \<open>fetch\<close> does for the \<open>i\<close>-th upload of the batch, carrying file \<open>f\<close>.
  The uploads never reject and the setters do not throw, so the \<open>catch\<close> of \<open>handleFiles\<close>
  is never entered; the lines of the concurrent uploads are logged here in the order of the
  files.
\<close>

record suspended =
  closure_uploadedImages :: "upload_result list"
  imageFiles :: "js_file list"

definition handleFiles_start :: "js_file list \<Rightarrow> cloudflare_app \<Rightarrow> cloudflare_app \<times> suspended option" where
  "handleFiles_start files st =
     (let imageFiles = filter isImageFile files in
      if 0 < length imageFiles
      then (st\<lparr>uploadingImages := True\<rparr>,
            Some \<lparr>closure_uploadedImages = uploadedImages st, imageFiles = imageFiles\<rparr>)
      else (st, None))"

definition handleFiles_finish ::
    "(nat \<Rightarrow> js_file \<Rightarrow> upload_body fetch_outcome) \<Rightarrow> suspended \<Rightarrow> cloudflare_app \<Rightarrow> cloudflare_app" where
  "handleFiles_finish net call st =
     (let settled = map (\<lambda>(i, f). uploadImageToCloudflare (net i f)) (enumerate 0 (imageFiles call));
          uploadedImageResults = map fst settled;
          successfulUploads = filter (\<lambda>result. result \<noteq> Null) uploadedImageResults
      in st\<lparr>uploadedImages := uploadedImages st @ successfulUploads,
             formValues := (formValues st)
               \<lparr>images := Some (closure_uploadedImages call @ successfulUploads)\<rparr>,
             console := console st @ concat (map snd settled),
             uploadingImages := False\<rparr>)"

definition resume ::
    "(nat \<Rightarrow> js_file \<Rightarrow> upload_body fetch_outcome) \<Rightarrow> suspended option \<Rightarrow> cloudflare_app \<Rightarrow> cloudflare_app" where
  "resume net call st = (case call of None \<Rightarrow> st | Some c \<Rightarrow> handleFiles_finish net c st)"

text \<open>A call of \<open>handleFiles\<close> during which no other handler runs.\<close>

definition handleFiles ::
    "(nat \<Rightarrow> js_file \<Rightarrow> upload_body fetch_outcome) \<Rightarrow> js_file list \<Rightarrow> cloudflare_app \<Rightarrow> cloudflare_app" where
  "handleFiles net files st =
     (case handleFiles_start files st of (st1, call) \<Rightarrow> resume net call st1)"

definition removeImage :: "int \<Rightarrow> cloudflare_app \<Rightarrow> cloudflare_app" where
  "removeImage index st =
     (let newImages = map snd (filter (\<lambda>(i, _). int i \<noteq> index) (enumerate 0 (uploadedImages st)))
      in st\<lparr>uploadedImages := newImages,
             formValues := (formValues st)\<lparr>images := Some newImages\<rparr>\<rparr>)"

section \<open>Submission orchestrator\<close>

text \<open>
  The \<open>catch\<close> and \<open>finally\<close> blocks of \<open>onSubmit\<close>, and the statements of the \<open>try\<close>
  block behind \<open>fetch\<close>; they are the same in both variants but for what \<open>reset()\<close> does to
  the values, which is the parameter \<open>reset\<close>; it also clears the errors of the form library.
\<close>

definition submitFinally :: "('a, 'p) component \<Rightarrow> ('a, 'p) component" where
  "submitFinally st = st\<lparr>isSubmitting := False\<rparr>"

definition submitCatch :: "js_error \<Rightarrow> ('a, 'p) component \<Rightarrow> ('a, 'p) component" where
  "submitCatch e st =
     submitFinally (st\<lparr>submitMessage := js ''Error submitting story. Please try again.'',
                        console := console st @ [(js ''Submission error:'', e)]\<rparr>)"

definition afterFetch ::
    "('a form_values \<Rightarrow> 'a form_values) \<Rightarrow> unit fetch_outcome \<Rightarrow> ('a, 'p) component
       \<Rightarrow> ('a, 'p) component" where
  "afterFetch reset outcome st =
     (case outcome of
        Rejects \<Rightarrow> submitCatch FetchError st
      | Response ok body \<Rightarrow>
          if \<not> ok then submitCatch (Error (js ''Submission failed'')) st
          else (case body of
                  None \<Rightarrow> submitCatch SyntaxError st
                | Some _ \<Rightarrow>
                    submitFinally
                      (st\<lparr>submitMessage := js ''Story submitted successfully! Thank you for sharing.'',
                           formValues := reset (formValues st), errors := [],
                           uploadedImages := []\<rparr>)))"

text \<open>
  \<open>onSubmit\<close> of the uploading variant. \<open>lower\<close> is \<open>toLowerCase\<close>, \<open>now\<close> is
  \<open>new Date().toISOString()\<close> and
  \<open>outcome\<close> what \<open>fetch\<close> does with the request.
\<close>

definition onSubmit ::
    "(jsstring \<Rightarrow> jsstring) \<Rightarrow> jsstring \<Rightarrow> unit fetch_outcome \<Rightarrow> 'a form_values
       \<Rightarrow> ('a, 'a payload) component
       \<Rightarrow> ('a, 'a payload) component" where
  "onSubmit lower now outcome data st =
     (let st1 = st\<lparr>isSubmitting := True, submitMessage := []\<rparr>;
          body = \<lparr>payload_name = sanitizeText (name data),
                  payload_email = lower (trim (email data)),
                  payload_story = sanitizeText (story data),
                  payload_images = uploadedImages st,
                  submittedAt = now\<rparr>
      in afterFetch resetWithForm outcome (st1\<lparr>posted := posted st1 @ [body]\<rparr>))"

text \<open>
  \<open>onSubmit\<close> of the inline variant reads every kept file first. \<open>read i f\<close> is the data URL
  that the reader gives for the \<open>i\<close>-th file, \<open>None\<close> when it reports an error; a failed read
  rejects \<open>Promise.all\<close>, and nothing is posted.
\<close>

definition convertToBase64 :: "(nat \<Rightarrow> js_file \<Rightarrow> jsstring option) \<Rightarrow> nat \<Rightarrow> js_file \<Rightarrow> js_error + jsstring" where
  "convertToBase64 read i f = (case read i f of None \<Rightarrow> Inl ReaderError | Some d \<Rightarrow> Inr d)"

fun promiseAll :: "('e + 'a) list \<Rightarrow> 'e + 'a list" where
  "promiseAll [] = Inr []"
| "promiseAll (Inl e # ps) = Inl e"
| "promiseAll (Inr v # ps) = (case promiseAll ps of Inl e \<Rightarrow> Inl e | Inr vs \<Rightarrow> Inr (v # vs))"

text \<open>The block that fills \<open>imageData\<close>.\<close>

definition convertAll ::
    "(nat \<Rightarrow> js_file \<Rightarrow> jsstring option) \<Rightarrow> js_file list \<Rightarrow> js_error + image_blob list" where
  "convertAll read files =
     (let base64Promises =
            map (\<lambda>(i, f). case convertToBase64 read i f of
                             Inl e \<Rightarrow> Inl e
                           | Inr base64 \<Rightarrow>
                               Inr \<lparr>blob_name = file_name f, blob_type = file_type f,
                                    blob_size = file_size f, blob_data = base64\<rparr>)
              (enumerate 0 files)
      in if 0 < length files then promiseAll base64Promises else Inr [])"

definition onSubmit_netlify ::
    "(jsstring \<Rightarrow> jsstring) \<Rightarrow> (nat \<Rightarrow> js_file \<Rightarrow> jsstring option) \<Rightarrow> jsstring
       \<Rightarrow> unit fetch_outcome \<Rightarrow> js_file form_values
       \<Rightarrow> netlify_app \<Rightarrow> netlify_app" where
  "onSubmit_netlify lower read now outcome data st =
     (let st1 = st\<lparr>isSubmitting := True, submitMessage := []\<rparr> in
      case convertAll read (uploadedFiles st) of
        Inl e \<Rightarrow> submitCatch e st1
      | Inr imageData \<Rightarrow>
          (let body = \<lparr>payload_name = sanitizeText (name data),
                       payload_email = lower (trim (email data)),
                       payload_story = sanitizeText (story data),
                       payload_images = imageData,
                       submittedAt = now\<rparr>
           in afterFetch resetWithoutForm outcome (st1\<lparr>posted := posted st1 @ [body]\<rparr>)))"

text \<open>
  \<open>handleSubmit(onSubmit)\<close> of the form library: it checks the rules of all fields and
  calls \<open>onSubmit\<close> with the values only when none fails; otherwise it stores the messages.
\<close>

definition handleSubmit ::
    "(jsstring \<Rightarrow> jsstring) \<Rightarrow> jsstring \<Rightarrow> unit fetch_outcome \<Rightarrow> ('a, 'a payload) component
       \<Rightarrow> ('a, 'a payload) component" where
  "handleSubmit lower now outcome st =
     (let errs = validate (formValues st) in
      if errs = [] then onSubmit lower now outcome (formValues st) (st\<lparr>errors := []\<rparr>)
      else st\<lparr>errors := errs\<rparr>)"

section \<open>Notions used by the statements\<close>

text \<open>A string without white space at either end.\<close>

definition trimmed :: "jsstring \<Rightarrow> bool" where
  "trimmed s \<longleftrightarrow> s = [] \<or> (\<not> isWhiteSpace (hd s) \<and> \<not> isWhiteSpace (last s))"

text \<open>
  An upload that failed: no response, a status that is not ok, a body that is not JSON, or a
  body whose \<open>success\<close> is false.
\<close>

definition uploadFailed :: "upload_body fetch_outcome \<Rightarrow> bool" where
  "uploadFailed outcome \<longleftrightarrow>
     (case outcome of
        Rejects \<Rightarrow> True
      | Response ok body \<Rightarrow> \<not> ok \<or> (case body of None \<Rightarrow> True | Some result \<Rightarrow> \<not> success result))"

text \<open>A submission whose network call failed or whose response has a status that is not ok.\<close>

definition submissionFailed :: "unit fetch_outcome \<Rightarrow> bool" where
  "submissionFailed outcome \<longleftrightarrow> (case outcome of Rejects \<Rightarrow> True | Response ok body \<Rightarrow> \<not> ok)"

text \<open>A response with an ok status and a body that is JSON.\<close>

definition submissionSucceeded :: "unit fetch_outcome \<Rightarrow> bool" where
  "submissionSucceeded outcome \<longleftrightarrow>
     (case outcome of Rejects \<Rightarrow> False | Response ok body \<Rightarrow> ok \<and> body \<noteq> None)"

section \<open>Concrete inputs\<close>

definition png :: "string \<Rightarrow> js_file" where
  "png n = \<lparr>file_name = js n, file_type = js ''image/png'', file_size = 2048\<rparr>"

definition pdf :: "string \<Rightarrow> js_file" where
  "pdf n = \<lparr>file_name = js n, file_type = js ''application/pdf'', file_size = 4096\<rparr>"

text \<open>The descriptor that the upload endpoint returns for a file it stored.\<close>

definition hosted :: "js_file \<Rightarrow> uploaded_image" where
  "hosted f =
     \<lparr>image_id = file_name f, image_url = js ''https://images.example/'' @ file_name f,
      image_filename = file_name f,
      variants = \<lparr>variant_public = js ''https://images.example/'' @ file_name f,
                  variant_thumbnail = None\<rparr>\<rparr>"

text \<open>An endpoint that stores every upload, and one that refuses the first of a batch.\<close>

definition accepting :: "nat \<Rightarrow> js_file \<Rightarrow> upload_body fetch_outcome" where
  "accepting i f =
     Response True (Some \<lparr>success = True, image = Uploaded (hosted f), error = None\<rparr>)"

definition refusingFirst :: "nat \<Rightarrow> js_file \<Rightarrow> upload_body fetch_outcome" where
  "refusingFirst i f =
     (if i = 0
      then Response True
             (Some \<lparr>success = False, image = Undefined, error = Some (js ''too large'')\<rparr>)
      else accepting i f)"

definition noon :: jsstring where
  "noon = js ''2024-05-01T12:00:00.000Z''"

text \<open>A form that is filled in, with one uploaded image.\<close>

definition filled :: cloudflare_app where
  "filled = initial\<lparr>uploadedImages := [Uploaded (hosted (png ''a.png''))],
     formValues := \<lparr>name = js ''Ann'', email = js ''ann@example.org'',
       story = js ''Once upon a time.'', images = Some [Uploaded (hosted (png ''a.png''))]\<rparr>\<rparr>"

text \<open>The same in the inline variant, with one kept file, and a reader that reads every file.\<close>

definition filledInline :: netlify_app where
  "filledInline = initial\<lparr>uploadedImages := [png ''a.png''],
     formValues := \<lparr>name = js ''Ann'', email = js ''ann@example.org'',
       story = js ''Once upon a time.'', images = Some [png ''a.png'']\<rparr>\<rparr>"

definition readable :: "nat \<Rightarrow> js_file \<Rightarrow> jsstring option" where
  "readable i f = Some (js ''data:image/png;base64,iVBORw0KGgo='')"

text \<open>A form with a story and an e-mail address but no name.\<close>

definition unnamed :: cloudflare_app where
  "unnamed = initial\<lparr>formValues := \<lparr>name = [], email = js ''ann@example.org'',
       story = js ''Once upon a time.'', images = None\<rparr>\<rparr>"

text \<open>
  The user drops \<open>a.png\<close> and, while its upload is in flight, drops \<open>b.png\<close>; then the first
  upload settles, then the second. Both calls of \<open>handleFiles\<close> were made by renders in which
  \<open>uploadedImages\<close> was empty.
\<close>

definition overlappingUploads :: cloudflare_app where
  "overlappingUploads =
     (case handleFiles_start [png ''a.png''] initial of (s1, call1) \<Rightarrow>
      case handleFiles_start [png ''b.png''] s1 of (s2, call2) \<Rightarrow>
        resume accepting call2 (resume accepting call1 s2))"

section \<open>Properties of the sanitizer\<close>

lemmas sanitize_eval = sanitizeText_def js_def trim_def handlerRe_def javascriptRe_def angleRe_def
  lit_def litCI_def canonicalize_def isWordChar_def isWhiteSpace_def isAngle_def

lemma set_replaceAll: "set (replaceAll re s) \<subseteq> set s"
proof (induction re s rule: replaceAll.induct)
  case (1 re)
  then show ?case by simp
next
  case (2 re c cs)
  show ?case
  proof (cases "matchHere re (c # cs)")
    case None
    with 2 show ?thesis by auto
  next
    case (Some k)
    show ?thesis
    proof (cases k)
      case 0
      with Some 2 show ?thesis by auto
    next
      case (Suc n)
      with Some 2 have "set (replaceAll re (drop n cs)) \<subseteq> set (drop n cs)" by simp
      moreover have "set (drop n cs) \<subseteq> set cs" by (rule set_drop_subset)
      ultimately show ?thesis using Some Suc by auto
    qed
  qed
qed

lemma replaceAll_absent: "\<not> occursIn re s \<Longrightarrow> replaceAll re s = s"
  by (induction s) (auto split: option.splits nat.splits)

lemma replaceAll_angleRe: "replaceAll angleRe s = filter (\<lambda>c. \<not> isAngle c) s"
  by (induction s) (auto simp: angleRe_def)

lemma occursIn_angleRe: "occursIn angleRe s \<longleftrightarrow> (\<exists>c \<in> set s. isAngle c)"
  by (induction s) (auto simp: angleRe_def)

lemma set_trim: "set (trim s) \<subseteq> set s"
proof -
  have "set (trim s) \<subseteq> set (dropWhile isWhiteSpace s)"
    unfolding trim_def using set_dropWhileD by fastforce
  also have "\<dots> \<subseteq> set s" using set_dropWhileD by fastforce
  finally show ?thesis .
qed

lemma trimmed_trim: "trimmed (trim s)"
proof (cases "trim s = []")
  case True
  then show ?thesis by (simp add: trimmed_def)
next
  case False
  define t where "t = dropWhile isWhiteSpace s"
  define u where "u = dropWhile isWhiteSpace (rev t)"
  have ts: "trim s = rev u" by (simp add: trim_def t_def u_def)
  with False have u: "u \<noteq> []" by simp
  then have "\<not> isWhiteSpace (hd u)" unfolding u_def by (rule hd_dropWhile)
  then have l: "\<not> isWhiteSpace (last (trim s))" using u ts by (simp add: last_rev)
  from u have t: "t \<noteq> []" unfolding u_def by auto
  then have ht: "\<not> isWhiteSpace (hd t)" unfolding t_def by (rule hd_dropWhile)
  obtain ws where ws: "rev t = ws @ u"
    unfolding u_def by (metis takeWhile_dropWhile_id)
  then have "t = rev u @ rev ws" by (metis rev_append rev_rev_ident)
  with u have "hd t = hd (rev u)" by simp
  with ht ts have "\<not> isWhiteSpace (hd (trim s))" by simp
  with l show ?thesis by (simp add: trimmed_def)
qed

lemma trim_trimmed: "trimmed s \<Longrightarrow> trim s = s"
proof (cases "s = []")
  case True
  then show ?thesis by (simp add: trim_def)
next
  case False
  assume "trimmed s"
  with False have h: "\<not> isWhiteSpace (hd s)" and l: "\<not> isWhiteSpace (last s)"
    by (simp_all add: trimmed_def)
  from False h have 1: "dropWhile isWhiteSpace s = s" by (cases s) auto
  from False l have "\<not> isWhiteSpace (hd (rev s))" by (simp add: hd_rev)
  with False have 2: "dropWhile isWhiteSpace (rev s) = rev s" by (cases "rev s") auto
  show ?thesis by (simp add: trim_def 1 2)
qed

text \<open>
  The first replacement is complete, and nothing behind it brings an angle bracket back:
  sanitized text has none.
\<close>

lemma sanitizeText_no_angle: "c \<in> set (sanitizeText t) \<Longrightarrow> \<not> isAngle c"
proof -
  assume "c \<in> set (sanitizeText t)"
  then have "c \<in> set (replaceAll handlerRe (replaceAll javascriptRe (replaceAll angleRe t)))"
    unfolding sanitizeText_def using set_trim by blast
  then have "c \<in> set (replaceAll angleRe t)"
    using set_replaceAll by blast
  then show ?thesis by (simp add: replaceAll_angleRe)
qed

text \<open>
  Sanitizing twice differs from sanitizing once only where the first result still holds one
  of the two longer patterns.
\<close>

lemma sanitizeText_stable:
  assumes "\<not> occursIn javascriptRe (sanitizeText t)" and "\<not> occursIn handlerRe (sanitizeText t)"
  shows "sanitizeText (sanitizeText t) = sanitizeText t"
proof -
  have "\<not> occursIn angleRe (sanitizeText t)"
    using sanitizeText_no_angle by (auto simp: occursIn_angleRe)
  then have "replaceAll angleRe (sanitizeText t) = sanitizeText t" by (rule replaceAll_absent)
  moreover have "replaceAll javascriptRe (sanitizeText t) = sanitizeText t"
    using assms(1) by (rule replaceAll_absent)
  moreover have "replaceAll handlerRe (sanitizeText t) = sanitizeText t"
    using assms(2) by (rule replaceAll_absent)
  moreover have "trim (sanitizeText t) = sanitizeText t"
    by (rule trim_trimmed) (simp add: sanitizeText_def trimmed_trim)
  ultimately show ?thesis by (simp add: sanitizeText_def)
qed

text \<open>
  Claim C2 (sanitizing sanitized text gives the same text) fails in the code. Each
  replacement is one pass from left to right, and removing a match can join the text around
  it into a new match: \<open>jajavascript:vascript:\<close> becomes \<open>javascript:\<close>, and sanitizing that
  gives the empty string.
\<close>

theorem sanitizeText_twice_differs:
  "sanitizeText (js ''jajavascript:vascript:'') = js ''javascript:''
   \<and> sanitizeText (sanitizeText (js ''jajavascript:vascript:'')) = []
   \<and> sanitizeText (sanitizeText (js ''jajavascript:vascript:''))
       \<noteq> sanitizeText (js ''jajavascript:vascript:'')"
  by (simp add: sanitize_eval)

text \<open>
  Claim C6 (the sanitized name and story hold no angle bracket, no \<open>javascript:\<close> in any
  case and no event-handler pattern) fails in the code for the two longer patterns: a match
  nested in another one survives the single pass, and removing an event-handler pattern can
  put \<open>javascript:\<close> together after the pass that removes it.
\<close>

theorem sanitizeText_leaves_patterns:
  "sanitizeText (js ''jaJAVASCRIPT:vascript:alert(1)'') = js ''javascript:alert(1)''
   \<and> occursIn javascriptRe (sanitizeText (js ''jaJAVASCRIPT:vascript:alert(1)''))
   \<and> sanitizeText (js ''oonclick=nclick=alert(1)'') = js ''onclick=alert(1)''
   \<and> occursIn handlerRe (sanitizeText (js ''oonclick=nclick=alert(1)''))
   \<and> sanitizeText (js ''javaonx=script:alert(1)'') = js ''javascript:alert(1)''"
  by (simp add: sanitize_eval)

section \<open>Properties of the attachment manager\<close>

lemmas scenario_eval = png_def pdf_def hosted_def accepting_def refusingFirst_def isImageFile_def
  startsWith_def js_def

lemmas handler_eval = handleFiles_def handleFiles_start_def handleFiles_finish_def resume_def
  uploadImageToCloudflare_def uploadAttempt_def Let_def initial_def resetValues_def

lemma isImageFile_png: "isImageFile (png n)"
  by (simp add: isImageFile_def png_def startsWith_def js_def)

lemma handleFiles_uploadedImages:
  "uploadedImages (handleFiles net files st) =
     uploadedImages st @ filter (\<lambda>r. r \<noteq> Null)
       (map (\<lambda>(i, f). fst (uploadImageToCloudflare (net i f)))
          (enumerate 0 (filter isImageFile files)))"
  by (simp add: handleFiles_def handleFiles_start_def handleFiles_finish_def resume_def Let_def
      comp_def case_prod_unfold)

subsection \<open>The two lists while no call is suspended\<close>

text \<open>
  Every handler keeps the attachment list and the form value equal when it runs from start
  to end with no other handler in between; \<open>removeImage\<close> and \<open>removeFile\<close> even make them
  equal.
\<close>

lemma initial_inSync: "inSync initial"
  by (simp add: inSync_def formImages_def initial_def resetValues_def)

lemma handleFiles_inSync: "inSync st \<Longrightarrow> inSync (handleFiles net files st)"
  by (cases "filter isImageFile files = []")
     (simp_all add: inSync_def formImages_def handleFiles_def handleFiles_start_def
        handleFiles_finish_def resume_def Let_def)

lemma handleFiles_netlify_inSync: "inSync st \<Longrightarrow> inSync (handleFiles_netlify files st)"
  by (simp add: inSync_def formImages_def handleFiles_netlify_def Let_def)

lemma removeImage_inSync: "inSync (removeImage index st)"
  by (simp add: inSync_def formImages_def removeImage_def Let_def)

lemma removeFile_inSync: "inSync (removeFile index st)"
  by (simp add: inSync_def formImages_def removeFile_def Let_def)

lemma afterFetch_inSync:
  "images (reset (formValues st)) = None \<Longrightarrow> inSync st \<Longrightarrow> inSync (afterFetch reset outcome st)"
  by (auto simp add: inSync_def formImages_def afterFetch_def submitCatch_def submitFinally_def
      split: fetch_outcome.splits option.splits)

lemma onSubmit_inSync: "inSync st \<Longrightarrow> inSync (onSubmit lower now outcome data st)"
  unfolding onSubmit_def Let_def
  by (rule afterFetch_inSync)
     (simp_all add: inSync_def formImages_def resetWithForm_def resetValues_def)

text \<open>
  Claim C1 (in every reachable state the attachment list and the form value \<open>images\<close> are
  equal) fails in the code. After its uploads, \<open>handleFiles\<close> appends the new images to the
  current attachment list (\<open>prev\<close>) but writes to the form the list of its closure plus the
  new images. When two batches overlap, the second call finishes with the attachment list
  holding both images and the form value holding only the second.
\<close>

theorem overlapping_uploads_out_of_sync:
  "uploadedImages overlappingUploads
     = [Uploaded (hosted (png ''a.png'')), Uploaded (hosted (png ''b.png''))]
   \<and> images (formValues overlappingUploads) = Some [Uploaded (hosted (png ''b.png''))]
   \<and> \<not> inSync overlappingUploads"
  by (simp add: overlappingUploads_def handleFiles_start_def handleFiles_finish_def resume_def
      isImageFile_png initial_def accepting_def uploadImageToCloudflare_def uploadAttempt_def
      inSync_def formImages_def Let_def)

subsection \<open>Failed uploads\<close>

lemma uploadFailed_Null: "uploadFailed outcome \<Longrightarrow> fst (uploadImageToCloudflare outcome) = Null"
  by (auto simp: uploadFailed_def uploadImageToCloudflare_def uploadAttempt_def
      split: fetch_outcome.splits option.splits)

lemma upload_success:
  "success result \<Longrightarrow> fst (uploadImageToCloudflare (Response True (Some result))) = image result"
  by (simp add: uploadImageToCloudflare_def uploadAttempt_def)

lemma nth_enumerate0: "i < length xs \<Longrightarrow> enumerate 0 xs ! i = (i, xs ! i)"
  by (simp add: nth_enumerate_eq)

text \<open>
  Claim C3: in a batch of image uploads, a failed upload gives \<open>null\<close>, which is filtered
  out before the merge, and every upload of the batch that succeeded is in the final
  attachment list; a failure does not remove the others. Here \<open>batch\<close> is the list of image
  files of the call, \<open>old\<close> and \<open>new\<close> the attachment list before and after it: \<open>new\<close>
  begins with \<open>old\<close>, holds no \<open>null\<close> behind it, holds the image of every successful upload,
  and grows by the number of uploads that did not give \<open>null\<close>.
\<close>

theorem failed_upload_dropped_others_kept:
  "let batch = filter isImageFile files;
       old = uploadedImages st;
       new = uploadedImages (handleFiles net files st)
   in take (length old) new = old
      \<and> Null \<notin> set (drop (length old) new)
      \<and> (\<forall>i < length batch. uploadFailed (net i (batch ! i)) \<longrightarrow>
            fst (uploadImageToCloudflare (net i (batch ! i))) = Null)
      \<and> (\<forall>i < length batch. \<forall>result img.
            net i (batch ! i) = Response True (Some result) \<and> success result
              \<and> image result = Uploaded img \<longrightarrow>
            Uploaded img \<in> set (drop (length old) new))
      \<and> length new = length old
            + length (filter (\<lambda>(i, f). fst (uploadImageToCloudflare (net i f)) \<noteq> Null)
                (enumerate 0 batch))"
proof -
  define batch where "batch = filter isImageFile files"
  define g where "g = (\<lambda>(i, f). fst (uploadImageToCloudflare (net i f)))"
  define added where "added = filter (\<lambda>r. r \<noteq> Null) (map g (enumerate 0 batch))"
  have new: "uploadedImages (handleFiles net files st) = uploadedImages st @ added"
    by (simp add: handleFiles_uploadedImages added_def g_def batch_def)
  have a: "Null \<notin> set added" by (simp add: added_def)
  have b: "Uploaded img \<in> set added"
    if "i < length batch" "net i (batch ! i) = Response True (Some result)" "success result"
       "image result = Uploaded img" for i result img
  proof -
    from that(1) have "(i, batch ! i) \<in> set (enumerate 0 batch)"
      by (metis length_enumerate nth_enumerate0 nth_mem)
    then have "g (i, batch ! i) \<in> set (map g (enumerate 0 batch))" by simp
    moreover have "g (i, batch ! i) = Uploaded img"
      using that by (simp add: g_def upload_success)
    ultimately show ?thesis by (simp add: added_def)
  qed
  have c: "length added
      = length (filter (\<lambda>(i, f). fst (uploadImageToCloudflare (net i f)) \<noteq> Null)
          (enumerate 0 batch))"
    by (simp add: added_def g_def filter_map comp_def case_prod_unfold)
  show ?thesis
    unfolding Let_def batch_def[symmetric] new
    using a b c by (auto simp: uploadFailed_Null)
qed

theorem failed_upload_dropped_others_kept_witness:
  "uploadFailed (refusingFirst 0 (png ''a.png''))
   \<and> fst (uploadImageToCloudflare (refusingFirst 0 (png ''a.png''))) = Null
   \<and> uploadedImages
        (handleFiles refusingFirst [png ''a.png'', png ''b.png''] (initial :: cloudflare_app))
       = [Uploaded (hosted (png ''b.png''))]
   \<and> Uploaded (hosted (png ''b.png''))
       \<in> set (uploadedImages
           (handleFiles refusingFirst [png ''a.png'', png ''b.png''] (initial :: cloudflare_app)))"
proof -
  let ?files = "[png ''a.png'', png ''b.png'']"
  let ?st = "initial :: cloudflare_app"
  have batch: "filter isImageFile ?files = ?files" by (simp add: scenario_eval)
  have old: "uploadedImages ?st = []" by (simp add: initial_def)
  have failed: "uploadFailed (refusingFirst 0 (png ''a.png''))"
    by (simp add: uploadFailed_def refusingFirst_def)
  have ok: "refusingFirst 1 (png ''b.png'')
      = Response True
          (Some \<lparr>success = True, image = Uploaded (hosted (png ''b.png'')), error = None\<rparr>)"
    by (simp add: refusingFirst_def accepting_def)
  have final: "uploadedImages (handleFiles refusingFirst ?files ?st)
      = [Uploaded (hosted (png ''b.png''))]"
    by (simp add: scenario_eval handler_eval)
  from failed_upload_dropped_others_kept [where st = ?st and files = ?files and net = refusingFirst]
  have "fst (uploadImageToCloudflare (refusingFirst 0 (png ''a.png''))) = Null
      \<and> Uploaded (hosted (png ''b.png''))
          \<in> set (uploadedImages (handleFiles refusingFirst ?files ?st))"
    unfolding Let_def batch old using failed ok by (auto simp: nth_Cons')
  with failed final show ?thesis by simp
qed

subsection \<open>Which files are kept\<close>

lemma map_enumerate_snd: "map (\<lambda>(i, f). g f) (enumerate n xs) = map g xs"
  by (induction xs arbitrary: n) simp_all

lemma upload_accepting: "fst (uploadImageToCloudflare (accepting i f)) = Uploaded (hosted f)"
  by (simp add: accepting_def uploadImageToCloudflare_def uploadAttempt_def)

text \<open>
  Claim C8: of the files passed to \<open>handleFiles\<close>, exactly those whose MIME type starts with
  \<open>image/\<close> go on, each as often as it was passed and in the same order; the others are
  dropped. The inline variant appends exactly these files to the kept files. The uploading
  variant uploads exactly these files and appends the results that are not \<open>null\<close>; with an
  endpoint that stores every upload, the attachment list grows by one image for each of
  these files and by nothing else. Of three files with one that is no image, two are kept.
\<close>

theorem only_image_files_kept:
  "uploadedFiles (handleFiles_netlify files nt) = uploadedFiles nt @ filter isImageFile files
   \<and> uploadedImages (handleFiles net files st)
       = uploadedImages st @ filter (\<lambda>r. r \<noteq> Null)
           (map (\<lambda>(i, f). fst (uploadImageToCloudflare (net i f)))
              (enumerate 0 (filter isImageFile files)))
   \<and> uploadedImages (handleFiles accepting files st)
       = uploadedImages st @ map (\<lambda>f. Uploaded (hosted f)) (filter isImageFile files)
   \<and> (case snd (handleFiles_start files st) of
         None \<Rightarrow> filter isImageFile files = []
       | Some call \<Rightarrow> imageFiles call = filter isImageFile files)
   \<and> (\<forall>f. f \<in> set (filter isImageFile files)
          \<longleftrightarrow> f \<in> set files \<and> startsWith (file_type f) (js ''image/''))
   \<and> length (filter isImageFile files)
       + length (filter (\<lambda>f. \<not> startsWith (file_type f) (js ''image/'')) files) = length files"
proof -
  have 1: "uploadedFiles (handleFiles_netlify files nt)
      = uploadedFiles nt @ filter isImageFile files"
    by (simp add: handleFiles_netlify_def Let_def)
  have 2: "case snd (handleFiles_start files st) of
         None \<Rightarrow> filter isImageFile files = []
       | Some call \<Rightarrow> imageFiles call = filter isImageFile files"
    by (simp add: handleFiles_start_def Let_def)
  have 3: "\<forall>f. f \<in> set (filter isImageFile files)
          \<longleftrightarrow> f \<in> set files \<and> startsWith (file_type f) (js ''image/'')"
    by (simp add: isImageFile_def)
  have "length (filter isImageFile files) + length (filter (\<lambda>f. \<not> isImageFile f) files)
      = length files"
    by (rule sum_length_filter_compl)
  then have 4: "length (filter isImageFile files)
       + length (filter (\<lambda>f. \<not> startsWith (file_type f) (js ''image/'')) files) = length files"
    by (simp add: isImageFile_def)
  have 5: "uploadedImages (handleFiles net files st)
       = uploadedImages st @ filter (\<lambda>r. r \<noteq> Null)
           (map (\<lambda>(i, f). fst (uploadImageToCloudflare (net i f)))
              (enumerate 0 (filter isImageFile files)))"
    by (rule handleFiles_uploadedImages)
  have "map (\<lambda>(i, f). fst (uploadImageToCloudflare (accepting i f))) (enumerate 0 xs)
      = map (\<lambda>f. Uploaded (hosted f)) xs" for xs
    by (simp add: upload_accepting map_enumerate_snd)
  then have 6: "uploadedImages (handleFiles accepting files st)
       = uploadedImages st @ map (\<lambda>f. Uploaded (hosted f)) (filter isImageFile files)"
    by (simp add: handleFiles_uploadedImages filter_map comp_def)
  from 1 2 3 4 5 6 show ?thesis by simp
qed

theorem only_image_files_kept_witness:
  "uploadedFiles (handleFiles_netlify [png ''a.png'', pdf ''notes.pdf'', png ''b.png''] initial)
     = [png ''a.png'', png ''b.png'']
   \<and> uploadedImages (handleFiles accepting [png ''a.png'', pdf ''notes.pdf'', png ''b.png'']
        (initial :: cloudflare_app))
     = [Uploaded (hosted (png ''a.png'')), Uploaded (hosted (png ''b.png''))]"
proof -
  let ?files = "[png ''a.png'', pdf ''notes.pdf'', png ''b.png'']"
  let ?st = "initial :: cloudflare_app"
  have kept: "filter isImageFile ?files = [png ''a.png'', png ''b.png'']"
    by (simp add: scenario_eval)
  note all = only_image_files_kept [where files = ?files and nt = initial and st = ?st]
  have a: "uploadedFiles (handleFiles_netlify ?files initial)
      = uploadedFiles (initial :: netlify_app) @ filter isImageFile ?files"
    using all by (rule conjunct1)
  have b: "uploadedImages (handleFiles accepting ?files ?st)
      = uploadedImages ?st @ map (\<lambda>f. Uploaded (hosted f)) (filter isImageFile ?files)"
    using all by (rule conjunct1 [OF conjunct2 [OF conjunct2]])
  from a b show ?thesis unfolding kept by (simp add: initial_def)
qed

subsection \<open>Removing at an index that is no position of the list\<close>

lemma filter_enumerate_outside:
  "index < int n \<or> int (n + length xs) \<le> index \<Longrightarrow>
     map snd (filter (\<lambda>(i, _). int i \<noteq> index) (enumerate n xs)) = xs"
  by (induction xs arbitrary: n) auto

text \<open>
  Claim C10 as stated (for an index outside the list, \<open>removeImage\<close> leaves the attachment list
  and the form value \<open>images\<close> unchanged) fails for the form value: \<open>removeImage\<close> always
  writes the list it computed to the form, so a form value that differed from the attachment
  list changes. In the state reached by the overlapping uploads the attachment list has two
  entries and the form value one; \<open>removeImage(7)\<close> makes the form value hold two.
\<close>

theorem removeImage_outside_changes_form_value:
  "length (uploadedImages overlappingUploads) = 2
   \<and> images (formValues overlappingUploads) = Some [Uploaded (hosted (png ''b.png''))]
   \<and> images (formValues (removeImage 7 overlappingUploads))
       = Some [Uploaded (hosted (png ''a.png'')), Uploaded (hosted (png ''b.png''))]"
  by (simp add: removeImage_def overlappingUploads_def handleFiles_start_def handleFiles_finish_def
      resume_def isImageFile_png initial_def accepting_def uploadImageToCloudflare_def
      uploadAttempt_def Let_def)

text \<open>
  Claim C10, amended: for an index below 0 or not below the length of the attachment list,
  \<open>removeImage\<close> (\<open>removeFile\<close>) leaves the attachment list unchanged and sets the form value
  \<open>images\<close> to that same list; so the form value is unchanged too whenever it was equal to the
  attachment list before the call.
\<close>

theorem remove_outside_keeps_list:
  "(index < 0 \<or> int (length (uploadedImages st)) \<le> index \<longrightarrow>
      uploadedImages (removeImage index st) = uploadedImages st
      \<and> images (formValues (removeImage index st)) = Some (uploadedImages st)
      \<and> (inSync st \<longrightarrow> formImages (removeImage index st) = formImages st))
   \<and> (index < 0 \<or> int (length (uploadedFiles nt)) \<le> index \<longrightarrow>
      uploadedFiles (removeFile index nt) = uploadedFiles nt
      \<and> images (formValues (removeFile index nt)) = Some (uploadedFiles nt)
      \<and> (inSync nt \<longrightarrow> formImages (removeFile index nt) = formImages nt))"
proof -
  have keep: "map snd (filter (\<lambda>(i, _). int i \<noteq> index) (enumerate 0 xs)) = xs"
    if "index < 0 \<or> int (length xs) \<le> index" for xs :: "'x list"
    using that by (intro filter_enumerate_outside) auto
  have 1: "uploadedImages (removeImage index st) = uploadedImages st
      \<and> images (formValues (removeImage index st)) = Some (uploadedImages st)
      \<and> (inSync st \<longrightarrow> formImages (removeImage index st) = formImages st)"
    if "index < 0 \<or> int (length (uploadedImages st)) \<le> index"
    by (simp add: removeImage_def Let_def keep [OF that] inSync_def formImages_def)
  have 2: "uploadedFiles (removeFile index nt) = uploadedFiles nt
      \<and> images (formValues (removeFile index nt)) = Some (uploadedFiles nt)
      \<and> (inSync nt \<longrightarrow> formImages (removeFile index nt) = formImages nt)"
    if "index < 0 \<or> int (length (uploadedFiles nt)) \<le> index"
    by (simp add: removeFile_def Let_def keep [OF that] inSync_def formImages_def)
  from 1 2 show ?thesis by blast
qed

theorem remove_outside_keeps_list_witness:
  "((7::int) < 0 \<or> int (length (uploadedImages filled)) \<le> 7)
   \<and> inSync filled
   \<and> uploadedImages (removeImage 7 filled) = [Uploaded (hosted (png ''a.png''))]
   \<and> images (formValues (removeImage 7 filled)) = images (formValues filled)
   \<and> formImages (removeImage 7 filled) = formImages filled
   \<and> uploadedFiles (removeFile (- 1) (handleFiles_netlify [png ''a.png''] initial))
       = [png ''a.png'']"
proof -
  have len: "length (uploadedImages filled) = 1" by (simp add: filled_def initial_def)
  have hi: "(7::int) < 0 \<or> int (length (uploadedImages filled)) \<le> 7" by (simp add: len)
  have sync: "inSync filled" by (simp add: inSync_def formImages_def filled_def initial_def)
  have vals: "uploadedImages filled = [Uploaded (hosted (png ''a.png''))]"
    "images (formValues filled) = Some [Uploaded (hosted (png ''a.png''))]"
    by (simp_all add: filled_def initial_def)
  have kept: "uploadedFiles (handleFiles_netlify [png ''a.png''] initial) = [png ''a.png'']"
    by (simp add: handleFiles_netlify_def Let_def isImageFile_png initial_def)
  from remove_outside_keeps_list [where index = 7 and st = filled] hi sync
  have a: "uploadedImages (removeImage 7 filled) = uploadedImages filled
      \<and> images (formValues (removeImage 7 filled)) = Some (uploadedImages filled)
      \<and> formImages (removeImage 7 filled) = formImages filled"
    by blast
  from remove_outside_keeps_list
    [where index = "- 1" and nt = "handleFiles_netlify [png ''a.png''] initial"]
  have b: "uploadedFiles (removeFile (- 1) (handleFiles_netlify [png ''a.png''] initial))
      = uploadedFiles (handleFiles_netlify [png ''a.png''] initial)"
    by simp
  from a b hi sync vals kept show ?thesis by simp
qed

section \<open>Properties of the submission\<close>

lemmas submit_eval = onSubmit_def afterFetch_def submitCatch_def submitFinally_def Let_def
  filled_def initial_def resetValues_def resetWithForm_def resetWithoutForm_def

lemmas validate_eval = validate_def validateName_def validateEmail_def validateStory_def
  checkLength_def fieldError_def matchesFromStart_def emailRe_def lit_def isLocalChar_def
  isDomainChar_def isLetter_def isDigit_def js_def

lemma posted_afterFetch: "posted (afterFetch reset outcome st) = posted st"
  by (simp add: afterFetch_def submitCatch_def submitFinally_def
      split: fetch_outcome.splits option.splits)

lemma submitCatch_fields:
  "submitMessage (submitCatch e st) = js ''Error submitting story. Please try again.''"
  "console (submitCatch e st) = console st @ [(js ''Submission error:'', e)]"
  "formValues (submitCatch e st) = formValues st"
  "uploadedImages (submitCatch e st) = uploadedImages st"
  "isSubmitting (submitCatch e st) = False"
  "posted (submitCatch e st) = posted st"
  by (simp_all add: submitCatch_def submitFinally_def)

lemma afterFetch_success:
  "submissionSucceeded outcome \<Longrightarrow>
     afterFetch reset outcome st = submitFinally
       (st\<lparr>submitMessage := js ''Story submitted successfully! Thank you for sharing.'',
            formValues := reset (formValues st), errors := [], uploadedImages := []\<rparr>)"
  by (auto simp: submissionSucceeded_def afterFetch_def split: fetch_outcome.splits)

lemma afterFetch_no_success:
  "\<not> submissionSucceeded outcome \<Longrightarrow> \<exists>e. afterFetch reset outcome st = submitCatch e st"
  by (auto simp: submissionSucceeded_def afterFetch_def
      split: fetch_outcome.splits option.splits)

lemma submissionFailed_no_success: "submissionFailed outcome \<Longrightarrow> \<not> submissionSucceeded outcome"
  by (auto simp: submissionFailed_def submissionSucceeded_def split: fetch_outcome.splits)

text \<open>The inline variant either fails before the request or posts one body.\<close>

lemma onSubmit_netlify_cases:
  "(\<exists>e. onSubmit_netlify lower read now outcome data st
          = submitCatch e (st\<lparr>isSubmitting := True, submitMessage := []\<rparr>))
   \<or> (\<exists>body. onSubmit_netlify lower read now outcome data st
          = afterFetch resetWithoutForm outcome (st\<lparr>isSubmitting := True, submitMessage := [],
              posted := posted st @ [body]\<rparr>)
        \<and> payload_name body = sanitizeText (name data)
        \<and> payload_story body = sanitizeText (story data))"
proof (cases "convertAll read (uploadedFiles st)")
  case (Inl e)
  then show ?thesis by (auto simp: onSubmit_netlify_def Let_def)
next
  case (Inr imageData)
  show ?thesis
    by (rule disjI2,
        rule exI [of _ "\<lparr>payload_name = sanitizeText (name data),
                       payload_email = lower (trim (email data)),
                       payload_story = sanitizeText (story data),
                       payload_images = imageData,
                       submittedAt = now\<rparr>"])
       (simp add: onSubmit_netlify_def Let_def Inr)
qed

lemma posted_onSubmit_netlify:
  "posted (onSubmit_netlify lower read now outcome data st) \<noteq> posted st
     \<longleftrightarrow> (\<exists>imageData. convertAll read (uploadedFiles st) = Inr imageData)"
  by (cases "convertAll read (uploadedFiles st)")
     (simp_all add: onSubmit_netlify_def Let_def posted_afterFetch submitCatch_fields)

lemma onSubmit_caught:
  assumes "\<not> submissionSucceeded outcome"
  shows "\<exists>e s. onSubmit lower now outcome data st = submitCatch e s
      \<and> console s = console st \<and> formValues s = formValues st
      \<and> uploadedImages s = uploadedImages st"
proof -
  let ?s = "st\<lparr>isSubmitting := True, submitMessage := [],
      posted := posted st @ [\<lparr>payload_name = sanitizeText (name data),
        payload_email = lower (trim (email data)),
        payload_story = sanitizeText (story data),
        payload_images = uploadedImages st, submittedAt = now\<rparr>]\<rparr>"
  from afterFetch_no_success [OF assms] obtain e
    where "afterFetch resetWithForm outcome ?s = submitCatch e ?s"
    by blast
  then have "onSubmit lower now outcome data st = submitCatch e ?s"
    by (simp add: onSubmit_def Let_def)
  then show ?thesis
    by - (rule exI [of _ e], rule exI [of _ ?s], simp)
qed

lemma onSubmit_netlify_caught:
  assumes "\<not> submissionSucceeded outcome"
  shows "\<exists>e s. onSubmit_netlify lower read now outcome data st = submitCatch e s
      \<and> console s = console st \<and> formValues s = formValues st
      \<and> uploadedFiles s = uploadedFiles st"
  using onSubmit_netlify_cases [of lower read now outcome data st]
proof (elim disjE exE conjE)
  fix e
  assume "onSubmit_netlify lower read now outcome data st
      = submitCatch e (st\<lparr>isSubmitting := True, submitMessage := []\<rparr>)"
  then show ?thesis
    by - (rule exI [of _ e],
          rule exI [of _ "st\<lparr>isSubmitting := True, submitMessage := []\<rparr>"], simp)
next
  fix body
  let ?s = "st\<lparr>isSubmitting := True, submitMessage := [], posted := posted st @ [body]\<rparr>"
  assume a: "onSubmit_netlify lower read now outcome data st
      = afterFetch resetWithoutForm outcome ?s"
  from afterFetch_no_success [OF assms] obtain e
    where "afterFetch resetWithoutForm outcome ?s = submitCatch e ?s"
    by blast
  with a show ?thesis
    by - (rule exI [of _ e], rule exI [of _ ?s], simp)
qed

text \<open>
  In the inline variant the three fields keep their text whatever the outcome, also after a
  successful submission.
\<close>

lemma onSubmit_netlify_keeps_fields:
  "name (formValues (onSubmit_netlify lower read now outcome data st)) = name (formValues st)
   \<and> email (formValues (onSubmit_netlify lower read now outcome data st)) = email (formValues st)
   \<and> story (formValues (onSubmit_netlify lower read now outcome data st)) = story (formValues st)"
  by (cases "convertAll read (uploadedFiles st)")
     (auto simp: onSubmit_netlify_def Let_def afterFetch_def submitCatch_def submitFinally_def
        resetWithoutForm_def split: fetch_outcome.splits option.splits)

text \<open>
  Claim C4: when the network call fails or the response has a status that is not ok,
  \<open>onSubmit\<close> (in both variants) catches the error, sets the message
  \<open>Error submitting story. Please try again.\<close>, logs the error under \<open>Submission error:\<close>,
  and leaves the form values and the attachment list as they were.
\<close>

theorem failed_submission_keeps_form:
  assumes "submissionFailed outcome"
  shows "(let st' = onSubmit lower now outcome data st in
            submitMessage st' = js ''Error submitting story. Please try again.''
            \<and> (\<exists>e. console st' = console st @ [(js ''Submission error:'', e)])
            \<and> formValues st' = formValues st
            \<and> uploadedImages st' = uploadedImages st
            \<and> \<not> isSubmitting st')
       \<and> (let nt' = onSubmit_netlify lower read now outcome ndata nt in
            submitMessage nt' = js ''Error submitting story. Please try again.''
            \<and> (\<exists>e. console nt' = console nt @ [(js ''Submission error:'', e)])
            \<and> formValues nt' = formValues nt
            \<and> uploadedFiles nt' = uploadedFiles nt
            \<and> \<not> isSubmitting nt')"
proof -
  have no: "\<not> submissionSucceeded outcome" using assms by (rule submissionFailed_no_success)
  from onSubmit_caught [OF no, of lower now data st]
  have 1: "let st' = onSubmit lower now outcome data st in
            submitMessage st' = js ''Error submitting story. Please try again.''
            \<and> (\<exists>e. console st' = console st @ [(js ''Submission error:'', e)])
            \<and> formValues st' = formValues st
            \<and> uploadedImages st' = uploadedImages st
            \<and> \<not> isSubmitting st'"
    by (auto simp: submitCatch_fields Let_def)
  from onSubmit_netlify_caught [OF no, of lower read now ndata nt]
  have 2: "let nt' = onSubmit_netlify lower read now outcome ndata nt in
            submitMessage nt' = js ''Error submitting story. Please try again.''
            \<and> (\<exists>e. console nt' = console nt @ [(js ''Submission error:'', e)])
            \<and> formValues nt' = formValues nt
            \<and> uploadedFiles nt' = uploadedFiles nt
            \<and> \<not> isSubmitting nt'"
    by (auto simp: submitCatch_fields Let_def)
  from 1 2 show ?thesis by simp
qed

theorem failed_submission_keeps_form_witness:
  "submissionFailed (Response False None)
   \<and> submitMessage (onSubmit asciiLowerCase noon (Response False None) (formValues filled) filled)
       = js ''Error submitting story. Please try again.''
   \<and> console (onSubmit asciiLowerCase noon (Response False None) (formValues filled) filled)
       = [(js ''Submission error:'', Error (js ''Submission failed''))]
   \<and> name (formValues (onSubmit asciiLowerCase noon (Response False None) (formValues filled) filled)) = js ''Ann''
   \<and> uploadedImages (onSubmit asciiLowerCase noon (Response False None) (formValues filled) filled)
       = [Uploaded (hosted (png ''a.png''))]"
proof -
  have failed: "submissionFailed (Response False None)" by (simp add: submissionFailed_def)
  have "console (onSubmit asciiLowerCase noon (Response False None) (formValues filled) filled)
       = [(js ''Submission error:'', Error (js ''Submission failed''))]"
    by (simp add: submit_eval)
  with failed
    failed_submission_keeps_form [OF failed, where lower = asciiLowerCase and now = noon
      and data = "formValues filled" and st = filled]
  show ?thesis by (simp add: Let_def filled_def initial_def)
qed

text \<open>
  Claim C5 as stated (whenever the POST receives a success status, \<open>onSubmit\<close> resets the form
  and the attachment list and shows the success message) fails in the code: the \<open>try\<close> block
  awaits \<open>response.json()\<close> before the reset, so a response with an ok status whose body is
  not JSON ends in the \<open>catch\<close> block, with the error message and nothing reset.
\<close>

theorem ok_status_without_json_is_not_reset:
  "submitMessage (onSubmit asciiLowerCase noon (Response True None) (formValues filled) filled)
     = js ''Error submitting story. Please try again.''
   \<and> name (formValues (onSubmit asciiLowerCase noon (Response True None) (formValues filled) filled)) = js ''Ann''
   \<and> uploadedImages (onSubmit asciiLowerCase noon (Response True None) (formValues filled) filled)
     = [Uploaded (hosted (png ''a.png''))]"
  by (simp add: submit_eval)

text \<open>
  Claim C5, amended: when the POST receives a response with a success status and a body
  that is JSON, \<open>onSubmit\<close> of the uploading variant empties the form fields and the
  attachment list and shows the success message, and \<open>onSubmit\<close> of the inline variant
  empties the attachment list and shows the success message; in every other case the form
  values and the attachment list stay as they were and the error message is shown. (In the
  inline variant the POST is made only when all files could be read.)
\<close>

theorem reset_exactly_on_success:
  "(let st' = onSubmit lower now outcome data st in
      (submissionSucceeded outcome \<longrightarrow>
         name (formValues st') = [] \<and> email (formValues st') = [] \<and> story (formValues st') = []
         \<and> images (formValues st') = None \<and> uploadedImages st' = []
         \<and> submitMessage st' = js ''Story submitted successfully! Thank you for sharing.'')
      \<and> (\<not> submissionSucceeded outcome \<longrightarrow>
         formValues st' = formValues st \<and> uploadedImages st' = uploadedImages st
         \<and> submitMessage st' = js ''Error submitting story. Please try again.''))
   \<and> (let nt' = onSubmit_netlify lower read now outcome ndata nt in
      (submissionSucceeded outcome \<and> posted nt' \<noteq> posted nt \<longrightarrow>
         uploadedFiles nt' = []
         \<and> submitMessage nt' = js ''Story submitted successfully! Thank you for sharing.'')
      \<and> (\<not> (submissionSucceeded outcome \<and> posted nt' \<noteq> posted nt) \<longrightarrow>
         formValues nt' = formValues nt \<and> uploadedFiles nt' = uploadedFiles nt
         \<and> submitMessage nt' = js ''Error submitting story. Please try again.''))"
proof -
  have 1: "let st' = onSubmit lower now outcome data st in
      (submissionSucceeded outcome \<longrightarrow>
         name (formValues st') = [] \<and> email (formValues st') = [] \<and> story (formValues st') = []
         \<and> images (formValues st') = None \<and> uploadedImages st' = []
         \<and> submitMessage st' = js ''Story submitted successfully! Thank you for sharing.'')
      \<and> (\<not> submissionSucceeded outcome \<longrightarrow>
         formValues st' = formValues st \<and> uploadedImages st' = uploadedImages st
         \<and> submitMessage st' = js ''Error submitting story. Please try again.'')"
  proof (cases "submissionSucceeded outcome")
    case True
    then show ?thesis
      by (simp add: onSubmit_def Let_def afterFetch_success submitFinally_def resetValues_def
          resetWithForm_def)
  next
    case False
    from onSubmit_caught [OF False, of lower now data st] False show ?thesis
      by (auto simp: submitCatch_fields Let_def)
  qed
  have 2: "let nt' = onSubmit_netlify lower read now outcome ndata nt in
      (submissionSucceeded outcome \<and> posted nt' \<noteq> posted nt \<longrightarrow>
         uploadedFiles nt' = []
         \<and> submitMessage nt' = js ''Story submitted successfully! Thank you for sharing.'')
      \<and> (\<not> (submissionSucceeded outcome \<and> posted nt' \<noteq> posted nt) \<longrightarrow>
         formValues nt' = formValues nt \<and> uploadedFiles nt' = uploadedFiles nt
         \<and> submitMessage nt' = js ''Error submitting story. Please try again.'')"
  proof (cases "convertAll read (uploadedFiles nt)")
    case (Inl e)
    then have "onSubmit_netlify lower read now outcome ndata nt
        = submitCatch e (nt\<lparr>isSubmitting := True, submitMessage := []\<rparr>)"
      by (simp add: onSubmit_netlify_def Let_def)
    then show ?thesis by (simp add: submitCatch_fields)
  next
    case (Inr imageData)
    then have p: "posted (onSubmit_netlify lower read now outcome ndata nt) \<noteq> posted nt"
      by (simp add: posted_onSubmit_netlify)
    show ?thesis
    proof (cases "submissionSucceeded outcome")
      case True
      then show ?thesis
        by (simp add: onSubmit_netlify_def Let_def Inr afterFetch_success submitFinally_def)
    next
      case False
      from onSubmit_netlify_caught [OF False, of lower read now ndata nt] False show ?thesis
        by (auto simp: submitCatch_fields Let_def)
    qed
  qed
  from 1 2 show ?thesis by simp
qed

theorem reset_exactly_on_success_witness:
  "submissionSucceeded (Response True (Some ()))
   \<and> formValues (onSubmit asciiLowerCase noon (Response True (Some ())) (formValues filled) filled)
       = resetValues
   \<and> uploadedImages
        (onSubmit asciiLowerCase noon (Response True (Some ())) (formValues filled) filled) = []
   \<and> \<not> submissionSucceeded (Response False None)
   \<and> uploadedImages (onSubmit asciiLowerCase noon (Response False None) (formValues filled) filled)
       = uploadedImages filled
   \<and> posted (onSubmit_netlify asciiLowerCase readable noon (Response True (Some ()))
        (formValues filledInline) filledInline) \<noteq> posted filledInline
   \<and> uploadedFiles (onSubmit_netlify asciiLowerCase readable noon (Response True (Some ()))
        (formValues filledInline) filledInline) = []"
proof -
  have yes: "submissionSucceeded (Response True (Some ()))" by (simp add: submissionSucceeded_def)
  have no: "\<not> submissionSucceeded (Response False None)" by (simp add: submissionSucceeded_def)
  have more: "formValues
      (onSubmit asciiLowerCase noon (Response True (Some ())) (formValues filled) filled)
      = resetValues"
    by (simp add: submit_eval)
  have sent: "posted (onSubmit_netlify asciiLowerCase readable noon (Response True (Some ()))
        (formValues filledInline) filledInline) \<noteq> posted filledInline"
  proof -
    have "\<exists>imageData. convertAll readable (uploadedFiles filledInline) = Inr imageData"
      by (simp add: convertAll_def convertToBase64_def readable_def filledInline_def
          initial_def Let_def)
    then show ?thesis
      using posted_onSubmit_netlify [of asciiLowerCase readable noon "Response True (Some ())"
          "formValues filledInline" filledInline]
      by blast
  qed
  note ok = reset_exactly_on_success [where outcome = "Response True (Some ())"
      and lower = asciiLowerCase and now = noon and data = "formValues filled" and st = filled
      and read = readable and ndata = "formValues filledInline" and nt = filledInline]
  from ok yes
  have a: "uploadedImages
      (onSubmit asciiLowerCase noon (Response True (Some ())) (formValues filled) filled) = []"
    by (simp add: Let_def)
  from ok yes sent
  have c: "uploadedFiles (onSubmit_netlify asciiLowerCase readable noon (Response True (Some ()))
        (formValues filledInline) filledInline) = []"
    by (simp add: Let_def)
  from reset_exactly_on_success [where outcome = "Response False None" and lower = asciiLowerCase
      and now = noon and data = "formValues filled" and st = filled] no
  have b: "uploadedImages
      (onSubmit asciiLowerCase noon (Response False None) (formValues filled) filled)
       = uploadedImages filled"
    by (simp add: Let_def)
  from yes no more a b c sent show ?thesis by simp
qed

subsection \<open>Validation before the request\<close>

lemma email_ok: "matchesFromStart emailRe (js ''ann@example.org'')"
  by (simp add: validate_eval)

lemma emailRe_nonempty: "matchesFromStart emailRe v \<Longrightarrow> v \<noteq> []"
  by (auto simp: matchesFromStart_def emailRe_def lit_def)

lemma validate_ok:
  assumes "2 \<le> length (name v)" "length (name v) \<le> 100"
      and "matchesFromStart emailRe (email v)"
      and "10 \<le> length (story v)" "length (story v) \<le> 5000"
  shows "validate v = []"
proof -
  from assms(1) have "name v \<noteq> []" by auto
  with assms(1,2) have n: "validateName (name v) = None"
    by (simp add: validateName_def checkLength_def)
  from assms(3) have e: "validateEmail (email v) = None"
    by (simp add: validateEmail_def emailRe_nonempty)
  from assms(4) have "story v \<noteq> []" by auto
  with assms(4,5) have s: "validateStory (story v) = None"
    by (simp add: validateStory_def checkLength_def)
  from n e s show ?thesis by (simp add: validate_def fieldError_def)
qed

text \<open>
  Claim C7 as stated (every submit attempt with a story of 10 to 5000 characters proceeds to
  the POST) fails in the code: the rules of all three fields are checked, so a form with such
  a story and an empty name is stopped with \<open>Name is required\<close> and nothing is posted.
\<close>

theorem valid_story_alone_is_not_posted:
  "10 \<le> length (story (formValues unnamed)) \<and> length (story (formValues unnamed)) \<le> 5000
   \<and> posted (handleSubmit asciiLowerCase noon (Response True (Some ())) unnamed) = []
   \<and> errors (handleSubmit asciiLowerCase noon (Response True (Some ())) unnamed)
       = [(Name, js ''Name is required'')]"
  by (simp add: handleSubmit_def unnamed_def initial_def Let_def validate_eval)

text \<open>
  Claim C7, amended: every submit attempt with a name of 2 to 100 characters, an e-mail
  address that matches the pattern of its field and a story of 10 to 5000 characters proceeds
  to the network call: one body is posted, whatever the network then does, and its story is
  the sanitized story.
\<close>

theorem valid_form_is_posted:
  assumes "2 \<le> length (name (formValues st))" "length (name (formValues st)) \<le> 100"
      and "matchesFromStart emailRe (email (formValues st))"
      and "10 \<le> length (story (formValues st))" "length (story (formValues st)) \<le> 5000"
  shows "\<exists>body. posted (handleSubmit lower now outcome st) = posted st @ [body]
           \<and> payload_story body = sanitizeText (story (formValues st))"
proof -
  have "validate (formValues st) = []" using assms by (rule validate_ok)
  then have "posted (handleSubmit lower now outcome st)
      = posted st @ [\<lparr>payload_name = sanitizeText (name (formValues st)),
            payload_email = lower (trim (email (formValues st))),
            payload_story = sanitizeText (story (formValues st)),
            payload_images = uploadedImages st, submittedAt = now\<rparr>]"
    by (simp add: handleSubmit_def onSubmit_def Let_def posted_afterFetch)
  then show ?thesis by simp
qed

theorem valid_form_is_posted_witness:
  "2 \<le> length (name (formValues filled)) \<and> length (name (formValues filled)) \<le> 100
   \<and> matchesFromStart emailRe (email (formValues filled))
   \<and> 10 \<le> length (story (formValues filled)) \<and> length (story (formValues filled)) \<le> 5000
   \<and> (\<exists>body. posted (handleSubmit asciiLowerCase noon Rejects filled) = posted filled @ [body]
           \<and> payload_story body = sanitizeText (story (formValues filled)))"
proof -
  have n: "2 \<le> length (name (formValues filled))" "length (name (formValues filled)) \<le> 100"
    by (simp_all add: filled_def initial_def js_def)
  have e: "matchesFromStart emailRe (email (formValues filled))"
    by (simp add: filled_def initial_def email_ok)
  have s: "10 \<le> length (story (formValues filled))" "length (story (formValues filled)) \<le> 5000"
    by (simp_all add: filled_def initial_def js_def)
  from valid_form_is_posted [OF n e s, of asciiLowerCase noon Rejects] n e s show ?thesis by simp
qed

subsection \<open>White space around name and story\<close>

text \<open>
  Claim C9: the name and the story placed in the body of the request are trimmed, because
  \<open>sanitizeText\<close> ends with \<open>trim()\<close>: in both variants the posted name and story are the
  sanitized inputs, and they neither begin nor end with white space.
\<close>

theorem posted_name_and_story_trimmed:
  "(\<exists>body. posted (onSubmit lower now outcome data st) = posted st @ [body]
       \<and> payload_name body = sanitizeText (name data) \<and> trimmed (payload_name body)
       \<and> payload_story body = sanitizeText (story data) \<and> trimmed (payload_story body))
   \<and> (posted (onSubmit_netlify lower read now outcome ndata nt) = posted nt
       \<or> (\<exists>body. posted (onSubmit_netlify lower read now outcome ndata nt) = posted nt @ [body]
           \<and> payload_name body = sanitizeText (name ndata) \<and> trimmed (payload_name body)
           \<and> payload_story body = sanitizeText (story ndata) \<and> trimmed (payload_story body)))
   \<and> sanitizeText t
       = trim (replaceAll handlerRe (replaceAll javascriptRe (replaceAll angleRe t)))"
proof -
  have tr: "trimmed (sanitizeText x)" for x
    by (simp add: sanitizeText_def trimmed_trim)
  have "posted (onSubmit lower now outcome data st)
      = posted st @ [\<lparr>payload_name = sanitizeText (name data),
            payload_email = lower (trim (email data)),
            payload_story = sanitizeText (story data),
            payload_images = uploadedImages st, submittedAt = now\<rparr>]"
    by (simp add: onSubmit_def Let_def posted_afterFetch)
  then have 1: "\<exists>body. posted (onSubmit lower now outcome data st) = posted st @ [body]
       \<and> payload_name body = sanitizeText (name data) \<and> trimmed (payload_name body)
       \<and> payload_story body = sanitizeText (story data) \<and> trimmed (payload_story body)"
    by (simp add: tr)
  have 2: "posted (onSubmit_netlify lower read now outcome ndata nt) = posted nt
       \<or> (\<exists>body. posted (onSubmit_netlify lower read now outcome ndata nt) = posted nt @ [body]
           \<and> payload_name body = sanitizeText (name ndata) \<and> trimmed (payload_name body)
           \<and> payload_story body = sanitizeText (story ndata) \<and> trimmed (payload_story body))"
    using onSubmit_netlify_cases [of lower read now outcome ndata nt]
    by (auto simp: submitCatch_fields posted_afterFetch tr)
  from 1 2 show ?thesis by (simp add: sanitizeText_def)
qed

theorem posted_name_and_story_trimmed_witness:
  "posted (onSubmit asciiLowerCase noon Rejects
      \<lparr>name = js ''  Ann '', email = js ''ann@example.org'', story = js '' Once upon a time.  '',
        images = None\<rparr> (initial :: cloudflare_app))
    = [\<lparr>payload_name = js ''Ann'', payload_email = js ''ann@example.org'',
        payload_story = js ''Once upon a time.'', payload_images = [], submittedAt = noon\<rparr>]
   \<and> trimmed (js ''Ann'') \<and> \<not> trimmed (js ''  Ann '')"
proof -
  let ?data = "\<lparr>name = js ''  Ann '', email = js ''ann@example.org'',
      story = js '' Once upon a time.  '', images = None :: upload_result list option\<rparr>"
  let ?st = "initial :: cloudflare_app"
  have eval: "posted (onSubmit asciiLowerCase noon Rejects ?data ?st)
    = [\<lparr>payload_name = js ''Ann'', payload_email = js ''ann@example.org'',
        payload_story = js ''Once upon a time.'', payload_images = [], submittedAt = noon\<rparr>]"
    by (simp add: submit_eval sanitize_eval asciiLowerCase_def)
  from posted_name_and_story_trimmed
    [where lower = asciiLowerCase and now = noon and outcome = Rejects and data = ?data
      and st = ?st]
  obtain body where "posted (onSubmit asciiLowerCase noon Rejects ?data ?st) = posted ?st @ [body]"
    and "trimmed (payload_name body)" by blast
  with eval have "trimmed (js ''Ann'')" by (auto simp: initial_def)
  moreover have "\<not> trimmed (js ''  Ann '')" by (simp add: trimmed_def js_def isWhiteSpace_def)
  ultimately show ?thesis using eval by simp
qed

end
